theory Spec2Isabelle
  imports Main "HOL-Library.AList" "HOL-Library.Word"
begin

section \<open>Object store adapter (package bucket)\<close>

text \<open>
  Go's \<open>error\<close> interface is modelled by a datatype carrying the message; a returned
  \<open>error\<close> is an \<open>error option\<close> with \<open>None\<close> for \<open>nil\<close>.
\<close>

datatype error = Err string

type_synonym byte = "8 word"
type_synonym bytes = "byte list"

text \<open>
  An \<open>io.Reader\<close> is the sequence of chunks its successive \<open>Read\<close> calls deliver,
  followed by the final result: \<open>None\<close> for \<open>io.EOF\<close>, \<open>Some e\<close> for a read error.
\<close>

record reader =
  chunks :: "bytes list"
  read_err :: "error option"

text \<open>\<open>thumb.Thumbnail\<close>: the fields \<open>Bucket.Put\<close> uses.\<close>

record Thumbnail =
  Filename :: string
  Reader :: reader

text \<open>
  Modelled from the spec: the bucket behind \<open>storage.BucketHandle\<close> (package
  \<open>cloud.google.com/go/storage\<close>, not part of the repository). The spec asks for a
  bucket-style store of named byte streams in which a write to an existing key overwrites.
  The bucket is the list of its objects, key and content; a writer collects what is written
  to it and \<open>Close\<close> commits the collected content under the writer's key. The backend's
  failures are given by a plan: the outcome of the \<open>n\<close>-th \<open>Write\<close> call on a writer,
  the outcome of \<open>Close\<close>, and the transient failure of opening a reader.
\<close>

type_synonym bucket_objects = "(string \<times> bytes) list"

record plan =
  write_err :: "nat \<Rightarrow> error option"
  close_err :: "error option"
  open_err :: "error option"

record Writer =
  w_name :: string
  w_buf :: bytes
  w_writes :: nat
  w_closes :: nat

definition NewWriter :: "string \<Rightarrow> Writer" where
  "NewWriter name = \<lparr>w_name = name, w_buf = [], w_writes = 0, w_closes = 0\<rparr>"

definition Write :: "plan \<Rightarrow> Writer \<Rightarrow> bytes \<Rightarrow> error option \<times> Writer" where
  "Write p w c =
     (case write_err p (w_writes w) of
        Some e \<Rightarrow> (Some e, w\<lparr>w_writes := Suc (w_writes w)\<rparr>)
      | None \<Rightarrow> (None, w\<lparr>w_buf := w_buf w @ c, w_writes := Suc (w_writes w)\<rparr>))"

definition Close :: "plan \<Rightarrow> bucket_objects \<Rightarrow> Writer \<Rightarrow> error option \<times> bucket_objects \<times> Writer" where
  "Close p objs w =
     (case close_err p of
        Some e \<Rightarrow> (Some e, objs, w\<lparr>w_closes := Suc (w_closes w)\<rparr>)
      | None \<Rightarrow> (None, AList.update (w_name w) (w_buf w) objs, w\<lparr>w_closes := Suc (w_closes w)\<rparr>))"

definition ErrObjectNotExist :: error where
  "ErrObjectNotExist = Err ''storage: object doesn't exist''"

definition NewReader :: "plan \<Rightarrow> bucket_objects \<Rightarrow> string \<Rightarrow> error + reader" where
  "NewReader p objs name =
     (case open_err p of
        Some e \<Rightarrow> Inl e
      | None \<Rightarrow>
          (case map_of objs name of
             None \<Rightarrow> Inl ErrObjectNotExist
           | Some b \<Rightarrow> Inr \<lparr>chunks = [b], read_err = None\<rparr>))"

text \<open>
  \<open>io.Copy(dst, src)\<close>: read a chunk, write it when it is not empty, stop with the
  write error when the write fails; at the end of the chunks the read result decides,
  \<open>io.EOF\<close> being success.
\<close>

fun copy_chunks :: "plan \<Rightarrow> Writer \<Rightarrow> bytes list \<Rightarrow> error option \<Rightarrow> error option \<times> Writer" where
  "copy_chunks p w [] r = (r, w)"
| "copy_chunks p w (c # cs) r =
     (if c = [] then copy_chunks p w cs r
      else (case Write p w c of
              (Some e, w') \<Rightarrow> (Some e, w')
            | (None, w') \<Rightarrow> copy_chunks p w' cs r))"

definition io_Copy :: "plan \<Rightarrow> Writer \<Rightarrow> reader \<Rightarrow> error option \<times> Writer" where
  "io_Copy p w src = copy_chunks p w (chunks src) (read_err src)"

text \<open>
  \<open>Bucket.Put\<close>. The result is the returned error, the bucket afterwards and the writer
  as the call leaves it.
\<close>

definition Put :: "plan \<Rightarrow> bucket_objects \<Rightarrow> Thumbnail \<Rightarrow> error option \<times> bucket_objects \<times> Writer" where
  "Put p objs img =
     (let writer = NewWriter (Filename img) in
      case io_Copy p writer (Reader img) of
        (Some err, w) \<Rightarrow> (Some err, objs, w)
      | (None, w) \<Rightarrow> Close p objs w)"

text \<open>\<open>Bucket.Get\<close>.\<close>

definition Get :: "plan \<Rightarrow> bucket_objects \<Rightarrow> string \<Rightarrow> error + reader" where
  "Get p objs filename = NewReader p objs filename"

text \<open>What a reader delivers when read to its end: all its bytes, or its read error.\<close>

definition read_all :: "reader \<Rightarrow> error + bytes" where
  "read_all r = (case read_err r of Some e \<Rightarrow> Inl e | None \<Rightarrow> Inr (concat (chunks r)))"


text \<open>The three components of the result of \<open>Put\<close>.\<close>

abbreviation put_error :: "error option \<times> bucket_objects \<times> Writer \<Rightarrow> error option" where
  "put_error r \<equiv> fst r"

abbreviation put_bucket :: "error option \<times> bucket_objects \<times> Writer \<Rightarrow> bucket_objects" where
  "put_bucket r \<equiv> fst (snd r)"

abbreviation put_writer :: "error option \<times> bucket_objects \<times> Writer \<Rightarrow> Writer" where
  "put_writer r \<equiv> snd (snd r)"

subsection \<open>Sample backends and thumbnails\<close>

text \<open>
  A backend that never fails, one whose second \<open>Write\<close> fails, one whose \<open>Close\<close>
  fails; two thumbnails of the same name and different content.
\<close>

definition plan_ok :: plan where
  "plan_ok = \<lparr>write_err = (\<lambda>n. None), close_err = None, open_err = None\<rparr>"

definition plan_write_fails :: plan where
  "plan_write_fails =
     plan_ok\<lparr>write_err := (\<lambda>n. if n = 1 then Some (Err ''write failed'') else None)\<rparr>"

definition plan_close_fails :: plan where
  "plan_close_fails = plan_ok\<lparr>close_err := Some (Err ''close failed'')\<rparr>"

definition thumb_a :: Thumbnail where
  "thumb_a = \<lparr>Filename = ''photo123_100.jpg'',
               Reader = \<lparr>chunks = [[1, 2], [], [3]], read_err = None\<rparr>\<rparr>"

definition thumb_b :: Thumbnail where
  "thumb_b = \<lparr>Filename = ''photo123_100.jpg'',
               Reader = \<lparr>chunks = [[9]], read_err = None\<rparr>\<rparr>"

section \<open>Lifecycle controller (package main)\<close>

subsection \<open>Constants\<close>

named_theorems env_names \<open>the names of the environment variables\<close>

definition dbHostEnv :: string where [env_names]: "dbHostEnv = ''DB_HOST''"
definition dbUserEnv :: string where [env_names]: "dbUserEnv = ''DB_USER''"
definition dbPasswordEnv :: string where [env_names]: "dbPasswordEnv = ''DB_PASSWORD''"
definition dbNameEnv :: string where [env_names]: "dbNameEnv = ''DB_NAME''"
definition dbPortEnv :: string where [env_names]: "dbPortEnv = ''DB_PORT''"
definition minioEndpointEnv :: string where [env_names]: "minioEndpointEnv = ''MINIO_ENDPOINT''"
definition minioRootUserEnv :: string where [env_names]: "minioRootUserEnv = ''MINIO_ROOT_USER''"
definition minioRootPasswordEnv :: string where
  [env_names]: "minioRootPasswordEnv = ''MINIO_ROOT_PASSWORD''"
definition photosBucketEnv :: string where [env_names]: "photosBucketEnv = ''PHOTOS_BUCKET''"
definition thumbsBucketEnv :: string where [env_names]: "thumbsBucketEnv = ''THUMBS_BUCKET''"
definition rabbitMQUrlEnv :: string where [env_names]: "rabbitMQUrlEnv = ''RABBITMQ_URL''"
definition queueNameEnv :: string where [env_names]: "queueNameEnv = ''QUEUE_NAME''"
definition bucketExchangeNameEnv :: string where
  [env_names]: "bucketExchangeNameEnv = ''BUCKET_EXCHANGE_NAME''"
definition workerExchangeNameEnv :: string where
  [env_names]: "workerExchangeNameEnv = ''WORKER_EXCHANGE_NAME''"
definition configFileEnv :: string where [env_names]: "configFileEnv = ''CONFIG_FILE''"
definition fanoutExchangeKind :: string where "fanoutExchangeKind = ''fanout''"

subsection \<open>The broker channel\<close>

text \<open>
  The calls made on the \<open>amqp.Channel\<close>, with their arguments in the order of the
  library's signatures:
  \<open>ExchangeDeclare(name, kind, durable, autoDelete, internal, noWait, args)\<close>,
  \<open>QueueDeclare(name, durable, autoDelete, exclusive, noWait, args)\<close>,
  \<open>QueueBind(name, key, exchange, noWait, args)\<close>. A \<open>nil\<close> table is \<open>None\<close>.
\<close>

type_synonym Table = "(string \<times> string) list"

datatype amqp_call =
    ExchangeDeclare string string bool bool bool bool "Table option"
  | QueueDeclare string bool bool bool bool "Table option"
  | QueueBind string string string bool "Table option"

record Queue =
  Name :: string
  Messages :: int
  Consumers :: int

definition zero_Queue :: Queue where
  "zero_Queue = \<lparr>Name = [], Messages = 0, Consumers = 0\<rparr>"

subsection \<open>The components main constructs\<close>

text \<open>
  Each component is the value its constructor is called with: the database connection is
  its DSN, the object store client its endpoint, credentials and \<open>Secure\<close> flag. The
  publisher and the subscriber are built on the one channel of the process.
\<close>

datatype db_connection = DbConnection string
datatype minio_client = MinioClient string string string bool
datatype ObjectStore = NewMinioStorage minio_client string
datatype ImageDatabase = NewDatabase db_connection
datatype Publisher = NewAmpqPublisher string
datatype Processor = NewImagingProcessor
datatype Producer = NewProducer Publisher

record Bundle =
  PhotoStorage :: ObjectStore
  ThumbStorage :: ObjectStore
  Database :: ImageDatabase
  Processor :: Processor
  Producer :: Producer
  Dimensions :: "nat list"

datatype Worker = NewThumbsWorker Bundle
datatype Consumer = NewConsumer Worker
datatype Subscriber = NewAmqpSubscriber Queue

text \<open>
  The value a handler is built from: main passes one value to \<open>api.GetThumbsHandler\<close>,
  which is either an image database or an object store.
\<close>

datatype backing = OnDatabase ImageDatabase | OnStorage ObjectStore
datatype Handler = GetThumbsHandler backing

record Route =
  r_method :: string
  r_path :: string
  r_handler :: Handler

record Configs =
  Thumbs_Dimensions :: "nat list"

subsection \<open>The world outside the process\<close>

text \<open>
  What the environment answers to each call main makes at startup: the environment
  variables, the configuration file, the database, the object store client, the broker.
\<close>

record world =
  getenv :: "string \<Rightarrow> string"
  config_Load :: "string \<Rightarrow> error + Configs"
  database_NewConnection :: "string \<Rightarrow> error option"
  minio_New :: "string \<Rightarrow> string \<Rightarrow> string \<Rightarrow> error option"
  amqp_Dial :: "string \<Rightarrow> error option"
  connection_Channel :: "error option"
  exchange_declared :: "amqp_call \<Rightarrow> error option"
  queue_declared :: "amqp_call \<Rightarrow> error + Queue"
  queue_bound :: "amqp_call \<Rightarrow> error option"

subsection \<open>The process\<close>

datatype resource = Unopened | Opened | Closed

datatype deferred_call = CloseConnection | CloseChannel

text \<open>
  The state of the process: its log, its exit status (\<open>None\<close> while it runs), the broker
  connection and channel, the deferred calls of main (the latest first), the calls made on
  the channel, the shared context, the buffered signal channel, and the two goroutines
  (\<open>Some\<close> while the subscriber is inside \<open>Subscribe\<close> and the engine inside \<open>Run\<close>).
\<close>

record proc =
  logs :: "string list"
  exit_status :: "nat option"
  connection :: resource
  channel :: resource
  deferred :: "deferred_call list"
  calls :: "amqp_call list"
  ctx_done :: bool
  signals :: nat
  subscriber :: "(Subscriber \<times> Consumer) option"
  engine :: "Route list option"

definition init_proc :: proc where
  "init_proc = \<lparr>logs = [], exit_status = None, connection = Unopened, channel = Unopened,
     deferred = [], calls = [], ctx_done = False, signals = 0, subscriber = None,
     engine = None\<rparr>"

fun message :: "error \<Rightarrow> string" where
  "message (Err m) = m"

definition log_Println :: "string \<Rightarrow> proc \<Rightarrow> proc" where
  "log_Println m s = s\<lparr>logs := logs s @ [m]\<rparr>"

text \<open>
  \<open>log.Fatalln\<close> is \<open>Println\<close> followed by \<open>os.Exit(1)\<close>; \<open>os.Exit\<close> ends the
  process at once and deferred calls are not run.
\<close>

definition log_Fatalln :: "string \<Rightarrow> proc \<Rightarrow> proc" where
  "log_Fatalln m s = (log_Println m s)\<lparr>exit_status := Some 1\<rparr>"

text \<open>
  What a deferred call does when it runs, and the return of a function with deferred
  calls: they run latest first.
\<close>

fun run_deferred_call :: "deferred_call \<Rightarrow> proc \<Rightarrow> proc" where
  "run_deferred_call CloseConnection s = s\<lparr>connection := Closed\<rparr>"
| "run_deferred_call CloseChannel s = s\<lparr>channel := Closed\<rparr>"

definition run_deferred :: "proc \<Rightarrow> proc" where
  "run_deferred s = (fold run_deferred_call (deferred s) s)\<lparr>deferred := []\<rparr>"

subsection \<open>Topology\<close>

definition channel_ExchangeDeclare ::
  "world \<Rightarrow> proc \<Rightarrow> string \<Rightarrow> string \<Rightarrow> bool \<Rightarrow> bool \<Rightarrow> bool \<Rightarrow> bool \<Rightarrow> Table option
     \<Rightarrow> error option \<times> proc" where
  "channel_ExchangeDeclare w s name kind durable autoDelete internal noWait args =
     (let c = ExchangeDeclare name kind durable autoDelete internal noWait args
      in (exchange_declared w c, s\<lparr>calls := calls s @ [c]\<rparr>))"

definition channel_QueueDeclare ::
  "world \<Rightarrow> proc \<Rightarrow> string \<Rightarrow> bool \<Rightarrow> bool \<Rightarrow> bool \<Rightarrow> bool \<Rightarrow> Table option
     \<Rightarrow> (error + Queue) \<times> proc" where
  "channel_QueueDeclare w s name durable autoDelete exclusive noWait args =
     (let c = QueueDeclare name durable autoDelete exclusive noWait args
      in (queue_declared w c, s\<lparr>calls := calls s @ [c]\<rparr>))"

definition channel_QueueBind ::
  "world \<Rightarrow> proc \<Rightarrow> string \<Rightarrow> string \<Rightarrow> string \<Rightarrow> bool \<Rightarrow> Table option
     \<Rightarrow> error option \<times> proc" where
  "channel_QueueBind w s name key exchange noWait args =
     (let c = QueueBind name key exchange noWait args
      in (queue_bound w c, s\<lparr>calls := calls s @ [c]\<rparr>))"

definition declareExchange :: "world \<Rightarrow> proc \<Rightarrow> string \<Rightarrow> error option \<times> proc" where
  "declareExchange w s exchangeName =
     channel_ExchangeDeclare w s exchangeName fanoutExchangeKind True False False False None"

definition declareAndBindQueue ::
  "world \<Rightarrow> proc \<Rightarrow> string \<Rightarrow> string \<Rightarrow> (Queue \<times> error option) \<times> proc" where
  "declareAndBindQueue w s queue exchange =
     (case channel_QueueDeclare w s queue True False False False None of
        (Inl err, s1) \<Rightarrow> ((zero_Queue, Some err), s1)
      | (Inr q, s1) \<Rightarrow>
          (case channel_QueueBind w s1 (Name q) [] exchange False None of
             (r, s2) \<Rightarrow> ((q, r), s2)))"


subsection \<open>Startup\<close>

text \<open>
  \<open>main\<close> up to the start of its loop: every failing step ends the process through
  \<open>log.Fatalln\<close>. The two \<open>defer\<close> statements push their calls. The result is the
  process with both goroutines started, or the exited process.
\<close>

definition main_dsn :: "world \<Rightarrow> string" where
  "main_dsn w =
     ''host='' @ getenv w dbHostEnv @ '' user='' @ getenv w dbUserEnv
     @ '' password='' @ getenv w dbPasswordEnv @ '' dbname='' @ getenv w dbNameEnv
     @ '' port='' @ getenv w dbPortEnv @ '' sslmode=disable''"

definition main_client :: "world \<Rightarrow> minio_client" where
  "main_client w =
     MinioClient (getenv w minioEndpointEnv) (getenv w minioRootUserEnv)
       (getenv w minioRootPasswordEnv) False"

definition main_startup :: "world \<Rightarrow> proc" where
  "main_startup w =
     (let configFile = getenv w configFileEnv in
      case config_Load w configFile of
        Inl err \<Rightarrow> log_Fatalln (message err) init_proc
      | Inr configs \<Rightarrow>
     (let dsn = main_dsn w in
      case database_NewConnection w dsn of
        Some err \<Rightarrow> log_Fatalln (message err) init_proc
      | None \<Rightarrow>
     (let dbConnection = DbConnection dsn in
      case minio_New w (getenv w minioEndpointEnv) (getenv w minioRootUserEnv)
             (getenv w minioRootPasswordEnv) of
        Some err \<Rightarrow> log_Fatalln (message err) init_proc
      | None \<Rightarrow>
     (let client = main_client w in
      case amqp_Dial w (getenv w rabbitMQUrlEnv) of
        Some err \<Rightarrow> log_Fatalln (message err) init_proc
      | None \<Rightarrow>
     (let s1 = init_proc\<lparr>connection := Opened,
                          deferred := CloseConnection # deferred init_proc\<rparr> in
      case connection_Channel w of
        Some err \<Rightarrow> log_Fatalln (message err) s1
      | None \<Rightarrow>
     (let s2 = s1\<lparr>channel := Opened, deferred := CloseChannel # deferred s1\<rparr> in
      case declareExchange w s2 (getenv w bucketExchangeNameEnv) of
        (Some err, s3) \<Rightarrow> log_Fatalln (message err) s3
      | (None, s3) \<Rightarrow>
     (case declareExchange w s3 (getenv w workerExchangeNameEnv) of
        (Some err, s4) \<Rightarrow> log_Fatalln (message err) s4
      | (None, s4) \<Rightarrow>
     (case declareAndBindQueue w s4 (getenv w queueNameEnv) (getenv w bucketExchangeNameEnv) of
        ((queue, Some err), s5) \<Rightarrow> log_Fatalln (message err) s5
      | ((queue, None), s5) \<Rightarrow>
     (let db = NewDatabase dbConnection;
          dimensions = Thumbs_Dimensions configs;
          publisher = NewAmpqPublisher (getenv w workerExchangeNameEnv);
          bundle = \<lparr>PhotoStorage = NewMinioStorage client (getenv w photosBucketEnv),
                    ThumbStorage = NewMinioStorage client (getenv w thumbsBucketEnv),
                    Database = db,
                    Processor = NewImagingProcessor,
                    Producer = NewProducer publisher,
                    Dimensions = dimensions\<rparr>;
          wk = NewThumbsWorker bundle;
          c = NewConsumer wk
      in s5\<lparr>subscriber := Some (NewAmqpSubscriber queue, c),
             engine := Some [\<lparr>r_method = ''GET'', r_path = ''/api/thumbs/:filename'',
                               r_handler = GetThumbsHandler (OnDatabase db)\<rparr>]\<rparr>)))))))))"

text \<open>
  Reading the wiring off the process: what each registered handler is built from, and the
  thumbnail storage of the worker the subscriber's consumer dispatches to.
\<close>

fun handler_backing :: "Handler \<Rightarrow> backing" where
  "handler_backing (GetThumbsHandler b) = b"

definition route_backings :: "proc \<Rightarrow> backing list" where
  "route_backings s =
     (case engine s of None \<Rightarrow> [] | Some rs \<Rightarrow> map handler_backing (map r_handler rs))"

fun consumer_bundle :: "Consumer \<Rightarrow> Bundle" where
  "consumer_bundle (NewConsumer (NewThumbsWorker b)) = b"

definition worker_ThumbStorage :: "proc \<Rightarrow> ObjectStore list" where
  "worker_ThumbStorage s =
     (case subscriber s of None \<Rightarrow> [] | Some (sub, c) \<Rightarrow> [ThumbStorage (consumer_bundle c)])"

subsection \<open>The retrieval endpoint\<close>






subsection \<open>The running process\<close>

text \<open>
  After startup three execution contexts run: the loop of \<open>main\<close>, the subscriber
  goroutine and the HTTP goroutine. An event is one move of one of them, or of the
  operating system:
  \<^item> \<open>Interrupt\<close>: the operating system delivers the interrupt; \<open>signal.Notify\<close>
    sends without blocking on a channel of capacity 1, so a signal is dropped when one is
    pending;
  \<^item> \<open>SelectSignal\<close>: the loop's \<open>select\<close> takes \<open>case <-signals\<close>, possible only
    when a signal is pending;
  \<^item> \<open>SelectDone\<close>: the loop's \<open>select\<close> takes \<open>case <-ctx.Done()\<close>, possible
    only when the context is done;
  \<^item> \<open>SubscribeReturns r\<close>: \<open>subscriber.Subscribe(ctx, c)\<close> returns \<open>r\<close>;
  \<^item> \<open>RunReturns r\<close>: \<open>engine.Run\<close> returns \<open>r\<close>.
  \<open>step\<close> is \<open>None\<close> when the event is not possible in the state; no event is possible
  once the process has exited.
\<close>

datatype event =
    Interrupt
  | SelectSignal
  | SelectDone
  | SubscribeReturns "error option"
  | RunReturns "error option"

definition context_Canceled :: error where
  "context_Canceled = Err ''context canceled''"

fun step_running :: "event \<Rightarrow> proc \<Rightarrow> proc option" where
  "step_running Interrupt s = Some (s\<lparr>signals := min 1 (Suc (signals s))\<rparr>)"
| "step_running SelectSignal s =
     (if 0 < signals s
      then Some ((log_Println ''shutting down...'' (s\<lparr>signals := signals s - 1\<rparr>))\<lparr>ctx_done := True\<rparr>)
      else None)"
| "step_running SelectDone s =
     (if ctx_done s then Some (log_Fatalln (message context_Canceled) s) else None)"
| "step_running (SubscribeReturns r) s =
     (case subscriber s of
        None \<Rightarrow> None
      | Some _ \<Rightarrow>
          (case r of
             Some err \<Rightarrow> Some ((log_Println (message err) s)\<lparr>subscriber := None\<rparr>)
           | None \<Rightarrow> Some (s\<lparr>subscriber := None\<rparr>)))"
| "step_running (RunReturns r) s =
     (case engine s of
        None \<Rightarrow> None
      | Some _ \<Rightarrow>
          (case r of
             Some err \<Rightarrow> Some (log_Fatalln (message err) s)
           | None \<Rightarrow> Some (s\<lparr>engine := None\<rparr>)))"

definition step :: "event \<Rightarrow> proc \<Rightarrow> proc option" where
  "step e s = (case exit_status s of Some _ \<Rightarrow> None | None \<Rightarrow> step_running e s)"

fun run :: "event list \<Rightarrow> proc \<Rightarrow> proc option" where
  "run [] s = Some s"
| "run (e # es) s = (case step e s of None \<Rightarrow> None | Some s' \<Rightarrow> run es s')"

text \<open>The whole program: startup, then the events in their order.\<close>

definition main :: "world \<Rightarrow> event list \<Rightarrow> proc option" where
  "main w es = run es (main_startup w)"

subsection \<open>A world in which every startup step succeeds\<close>

definition env0 :: "string \<Rightarrow> string" where
  "env0 name =
     (if name = queueNameEnv then ''thumbs''
      else if name = bucketExchangeNameEnv then ''bucket''
      else if name = workerExchangeNameEnv then ''worker''
      else if name = photosBucketEnv then ''photos''
      else if name = thumbsBucketEnv then ''thumbs''
      else [])"

definition world0 :: world where
  "world0 = \<lparr>getenv = env0,
     config_Load = (\<lambda>f. Inr \<lparr>Thumbs_Dimensions = [100, 400]\<rparr>),
     database_NewConnection = (\<lambda>dsn. None),
     minio_New = (\<lambda>e u p. None),
     amqp_Dial = (\<lambda>url. None),
     connection_Channel = None,
     exchange_declared = (\<lambda>c. None),
     queue_declared = (\<lambda>c. case c of
        QueueDeclare n d a x nw t \<Rightarrow> Inr \<lparr>Name = n, Messages = 0, Consumers = 0\<rparr>
      | _ \<Rightarrow> Inl (Err ''not a queue declaration'')),
     queue_bound = (\<lambda>c. None)\<rparr>"

text \<open>The same world with a broker that refuses the second exchange.\<close>

definition world1 :: world where
  "world1 = world0\<lparr>exchange_declared := (\<lambda>c. case c of
        ExchangeDeclare n k d a i nw t \<Rightarrow>
          (if n = ''worker'' then Some (Err ''channel closed'') else None)
      | _ \<Rightarrow> None)\<rparr>"


section \<open>The object store adapter: proofs\<close>

lemmas adapter_defs = Put_def io_Copy_def NewWriter_def Write_def Close_def Get_def NewReader_def
  read_all_def plan_ok_def plan_write_fails_def plan_close_fails_def thumb_a_def thumb_b_def


lemma copy_chunks_ok:
  "copy_chunks p w cs r = (None, w') \<Longrightarrow>
     r = None \<and> w_buf w' = w_buf w @ concat cs \<and> w_name w' = w_name w"
proof (induction cs arbitrary: w)
  case Nil
  then show ?case by simp
next
  case (Cons c cs)
  show ?case
  proof (cases "c = []")
    case True
    with Cons show ?thesis by simp
  next
    case False
    with Cons.prems obtain w1 where w1: "Write p w c = (None, w1)" and rest: "copy_chunks p w1 cs r = (None, w')"
      by (auto split: prod.splits option.splits)
    from w1 have "w_buf w1 = w_buf w @ c" "w_name w1 = w_name w"
      by (auto simp: Write_def split: option.splits)
    with Cons.IH [OF rest] show ?thesis by simp
  qed
qed

lemma copy_chunks_closes: "w_closes (snd (copy_chunks p w cs r)) = w_closes w"
proof (induction cs arbitrary: w)
  case Nil
  then show ?case by simp
next
  case (Cons c cs)
  have "w_closes (snd (Write p w c)) = w_closes w"
    by (simp add: Write_def split: option.splits)
  with Cons show ?case
    by (auto split: prod.splits option.splits)
qed

lemma Put_ok:
  assumes "put_error (Put p objs img) = None"
  shows "read_err (Reader img) = None"
    and "put_bucket (Put p objs img) = AList.update (Filename img) (concat (chunks (Reader img))) objs"
    and "w_buf (put_writer (Put p objs img)) = concat (chunks (Reader img))"
    and "w_closes (put_writer (Put p objs img)) = 1"
proof -
  obtain r w where c: "copy_chunks p (NewWriter (Filename img)) (chunks (Reader img)) (read_err (Reader img)) = (r, w)"
    by (cases "copy_chunks p (NewWriter (Filename img)) (chunks (Reader img)) (read_err (Reader img))")
  with assms have r: "r = None" and cl: "close_err p = None"
    by (auto simp: Put_def io_Copy_def Close_def Let_def split: option.splits)
  from copy_chunks_ok [OF c [unfolded r]]
  have w: "read_err (Reader img) = None" "w_buf w = concat (chunks (Reader img))" "w_name w = Filename img"
    by (simp_all add: NewWriter_def)
  from copy_chunks_closes [of p "NewWriter (Filename img)" "chunks (Reader img)" "read_err (Reader img)"] c
  have k: "w_closes w = 0" by (simp add: NewWriter_def)
  show "read_err (Reader img) = None" by (rule w)
  show "put_bucket (Put p objs img) = AList.update (Filename img) (concat (chunks (Reader img))) objs"
    using c r cl w by (simp add: Put_def io_Copy_def Close_def Let_def)
  show "w_buf (put_writer (Put p objs img)) = concat (chunks (Reader img))"
    using c r cl w by (simp add: Put_def io_Copy_def Close_def Let_def)
  show "w_closes (put_writer (Put p objs img)) = 1"
    using c r cl k by (simp add: Put_def io_Copy_def Close_def Let_def)
qed

lemma Put_distinct:
  "distinct (map fst objs) \<Longrightarrow> distinct (map fst (put_bucket (Put p objs img)))"
  by (auto simp: Put_def Close_def Let_def distinct_update split: prod.splits option.splits)

lemma update_only_entry:
  "distinct (map fst al) \<Longrightarrow> filter (\<lambda>kv. fst kv = k) (AList.update k v al) = [(k, v)]"
proof (induction al)
  case Nil
  then show ?case by simp
next
  case (Cons a al)
  show ?case
  proof (cases "fst a = k")
    case True
    with Cons.prems have "k \<notin> fst ` set al" by auto
    then have "filter (\<lambda>kv. fst kv = k) al = []"
      by (auto simp: filter_empty_conv)
    with True show ?thesis by simp
  next
    case False
    with Cons show ?thesis by simp
  qed
qed

text \<open>
  Claim C5. \<open>Put\<close> returns success exactly when the copy of the whole stream to the
  backend writer succeeded and the close of that writer succeeded too. A copy error is
  returned as it is, and so is a close error after a successful copy. When \<open>Put\<close>
  returns success the writer holds every byte of the stream and has been closed once, so
  the caller never sees success for a write that was not completed and closed.
\<close>

theorem Put_success_needs_copy_and_close:
  "(put_error (Put p objs img) = None \<longleftrightarrow>
      fst (io_Copy p (NewWriter (Filename img)) (Reader img)) = None \<and> close_err p = None)
   \<and> (fst (io_Copy p (NewWriter (Filename img)) (Reader img)) = Some e \<longrightarrow>
        put_error (Put p objs img) = Some e)
   \<and> (fst (io_Copy p (NewWriter (Filename img)) (Reader img)) = None \<and> close_err p = Some e \<longrightarrow>
        put_error (Put p objs img) = Some e)
   \<and> (put_error (Put p objs img) = None \<longrightarrow>
        w_buf (put_writer (Put p objs img)) = concat (chunks (Reader img))
        \<and> w_closes (put_writer (Put p objs img)) = 1)"
proof -
  have a: "put_error (Put p objs img) = None \<longleftrightarrow>
      fst (io_Copy p (NewWriter (Filename img)) (Reader img)) = None \<and> close_err p = None"
    by (auto simp: Put_def Close_def Let_def split: prod.splits option.splits)
  have b: "fst (io_Copy p (NewWriter (Filename img)) (Reader img)) = Some e \<longrightarrow>
        put_error (Put p objs img) = Some e"
    by (auto simp: Put_def Let_def split: prod.splits option.splits)
  have c: "fst (io_Copy p (NewWriter (Filename img)) (Reader img)) = None \<and> close_err p = Some e \<longrightarrow>
        put_error (Put p objs img) = Some e"
    by (auto simp: Put_def Close_def Let_def split: prod.splits option.splits)
  have d: "put_error (Put p objs img) = None \<longrightarrow>
        w_buf (put_writer (Put p objs img)) = concat (chunks (Reader img))
        \<and> w_closes (put_writer (Put p objs img)) = 1"
    using Put_ok(3,4) by blast
  from a b c d show ?thesis by blast
qed

theorem Put_success_needs_copy_and_close_witness:
  "put_error (Put plan_ok [] thumb_a) = None
   \<and> w_buf (put_writer (Put plan_ok [] thumb_a)) = [1, 2, 3]
   \<and> w_closes (put_writer (Put plan_ok [] thumb_a)) = 1
   \<and> fst (io_Copy plan_write_fails (NewWriter (Filename thumb_a)) (Reader thumb_a)) = Some (Err ''write failed'')
   \<and> put_error (Put plan_write_fails [] thumb_a) = Some (Err ''write failed'')
   \<and> fst (io_Copy plan_close_fails (NewWriter (Filename thumb_a)) (Reader thumb_a)) = None
   \<and> close_err plan_close_fails = Some (Err ''close failed'')
   \<and> put_error (Put plan_close_fails [] thumb_a) = Some (Err ''close failed'')"
  using Put_success_needs_copy_and_close [of plan_ok "[]" thumb_a "Err ''x''"]
    Put_success_needs_copy_and_close [of plan_write_fails "[]" thumb_a "Err ''write failed''"]
    Put_success_needs_copy_and_close [of plan_close_fails "[]" thumb_a "Err ''close failed''"]
  by (simp add: adapter_defs)

text \<open>
  Claim C9. When the copy of the input stream to the backend writer fails, \<open>Put\<close>
  returns the copy error at once: the bucket is as before, the writer is left as the copy
  left it, and \<open>Close\<close> has not been called on it.
\<close>

theorem Put_copy_error_skips_Close:
  assumes "fst (io_Copy p (NewWriter (Filename img)) (Reader img)) = Some e"
  shows "put_error (Put p objs img) = Some e
    \<and> put_bucket (Put p objs img) = objs
    \<and> put_writer (Put p objs img) = snd (io_Copy p (NewWriter (Filename img)) (Reader img))
    \<and> w_closes (put_writer (Put p objs img)) = 0"
proof -
  have "w_closes (snd (io_Copy p (NewWriter (Filename img)) (Reader img))) = 0"
    by (simp add: io_Copy_def copy_chunks_closes NewWriter_def)
  with assms show ?thesis
    by (auto simp: Put_def Let_def split: prod.splits option.splits)
qed

theorem Put_copy_error_skips_Close_witness:
  "fst (io_Copy plan_write_fails (NewWriter (Filename thumb_a)) (Reader thumb_a)) = Some (Err ''write failed'')
   \<and> put_error (Put plan_write_fails [] thumb_a) = Some (Err ''write failed'')
   \<and> put_bucket (Put plan_write_fails [] thumb_a) = []
   \<and> w_closes (put_writer (Put plan_write_fails [] thumb_a)) = 0"
proof -
  have h: "fst (io_Copy plan_write_fails (NewWriter (Filename thumb_a)) (Reader thumb_a)) = Some (Err ''write failed'')"
    by (simp add: adapter_defs)
  from Put_copy_error_skips_Close [OF h, of "[]"] h show ?thesis by blast
qed

text \<open>
  Claim C7. In a bucket whose keys are distinct, \<open>Put\<close> of \<open>f\<close> with one content
  followed by a successful \<open>Put\<close> of \<open>f\<close> with a second content leaves exactly one
  object under the key \<open>f\<close>, and its content is the second one: the first value is
  overwritten and no second entry appears.
\<close>

theorem Put_twice_overwrites:
  assumes "distinct (map fst objs)"
    and "put_error (Put p2 (put_bucket (Put p1 objs \<lparr>Filename = f, Reader = r1\<rparr>)) \<lparr>Filename = f, Reader = r2\<rparr>) = None"
  shows "filter (\<lambda>kv. fst kv = f)
           (put_bucket (Put p2 (put_bucket (Put p1 objs \<lparr>Filename = f, Reader = r1\<rparr>)) \<lparr>Filename = f, Reader = r2\<rparr>))
         = [(f, concat (chunks r2))]"
proof -
  let ?objs1 = "put_bucket (Put p1 objs \<lparr>Filename = f, Reader = r1\<rparr>)"
  have d: "distinct (map fst ?objs1)" using assms(1) by (rule Put_distinct)
  from Put_ok(2) [OF assms(2)]
  have "put_bucket (Put p2 ?objs1 \<lparr>Filename = f, Reader = r2\<rparr>) = AList.update f (concat (chunks r2)) ?objs1"
    by simp
  with update_only_entry [OF d] show ?thesis by simp
qed

theorem Put_twice_overwrites_witness:
  "distinct (map fst ([] :: bucket_objects))
   \<and> put_error (Put plan_ok [] thumb_a) = None
   \<and> put_bucket (Put plan_ok [] thumb_a) = [(''photo123_100.jpg'', [1, 2, 3])]
   \<and> put_error (Put plan_ok (put_bucket (Put plan_ok [] thumb_a)) thumb_b) = None
   \<and> filter (\<lambda>kv. fst kv = ''photo123_100.jpg'')
        (put_bucket (Put plan_ok (put_bucket (Put plan_ok [] thumb_a)) thumb_b))
      = [(''photo123_100.jpg'', [9])]"
proof -
  have a: "thumb_a = \<lparr>Filename = ''photo123_100.jpg'', Reader = \<lparr>chunks = [[1, 2], [], [3]], read_err = None\<rparr>\<rparr>"
    by (simp add: thumb_a_def)
  have b: "thumb_b = \<lparr>Filename = ''photo123_100.jpg'', Reader = \<lparr>chunks = [[9]], read_err = None\<rparr>\<rparr>"
    by (simp add: thumb_b_def)
  have h1: "distinct (map fst ([] :: bucket_objects))" by simp
  have h2: "put_error (Put plan_ok (put_bucket (Put plan_ok [] thumb_a)) thumb_b) = None"
    by (simp add: adapter_defs)
  have h3: "put_error (Put plan_ok [] thumb_a) = None
     \<and> put_bucket (Put plan_ok [] thumb_a) = [(''photo123_100.jpg'', [1, 2, 3])]"
    by (simp add: adapter_defs)
  from Put_twice_overwrites [OF h1 h2 [unfolded a b]] h1 h2 h3 show ?thesis
    by (simp add: a b)
qed


section \<open>The lifecycle controller: proofs\<close>

lemmas topo_defs = declareExchange_def declareAndBindQueue_def
    channel_ExchangeDeclare_def channel_QueueDeclare_def channel_QueueBind_def
lemmas startup_defs = main_startup_def topo_defs init_proc_def log_Fatalln_def log_Println_def
lemmas world0_defs = world0_def world1_def env0_def env_names main_dsn_def main_client_def
  fanoutExchangeKind_def context_Canceled_def

lemma startup_exit: "exit_status (main_startup w) = None \<or> exit_status (main_startup w) = Some 1"
  by (simp add: startup_defs Let_def split: sum.splits option.splits prod.splits)

lemma startup_ctx: "\<not> ctx_done (main_startup w)"
  by (simp add: startup_defs Let_def split: sum.splits option.splits prod.splits)

lemma run_append:
  "run (es @ fs) s = (case run es s of None \<Rightarrow> None | Some s' \<Rightarrow> run fs s')"
  by (induction es arbitrary: s) (simp_all split: option.splits)

lemma step_exit:
  "step e s = Some s' \<Longrightarrow> exit_status s = None \<and> (exit_status s' = None \<or> exit_status s' = Some 1)"
  by (cases e) (auto simp: step_def log_Fatalln_def log_Println_def split: option.splits if_splits)

lemma step_ctx:
  "step e s = Some s' \<Longrightarrow> ctx_done s' \<Longrightarrow> ctx_done s \<or> e = SelectSignal"
  by (cases e) (auto simp: step_def log_Fatalln_def log_Println_def split: option.splits if_splits)

lemma run_exit:
  "run es s = Some s' \<Longrightarrow> exit_status s = None \<or> exit_status s = Some 1 \<Longrightarrow>
     exit_status s' = None \<or> exit_status s' = Some 1"
proof (induction es arbitrary: s)
  case Nil
  then show ?case by simp
next
  case (Cons e es)
  from Cons.prems(1) obtain s1 where s1: "step e s = Some s1" and r: "run es s1 = Some s'"
    by (auto split: option.splits)
  from step_exit [OF s1] Cons.IH [OF r] show ?case by blast
qed

lemma run_ctx:
  "run es s = Some s' \<Longrightarrow> ctx_done s' \<Longrightarrow> ctx_done s \<or> SelectSignal \<in> set es"
proof (induction es arbitrary: s)
  case Nil
  then show ?case by simp
next
  case (Cons e es)
  from Cons.prems(1) obtain s1 where s1: "step e s = Some s1" and r: "run es s1 = Some s'"
    by (auto split: option.splits)
  from Cons.IH [OF r Cons.prems(2)] step_ctx [OF s1] show ?case by auto
qed

lemma interrupt_exits:
  assumes "exit_status s = None"
  shows "\<exists>s'. run [Interrupt, SelectSignal, SelectDone] s = Some s' \<and> exit_status s' = Some 1
           \<and> logs s' = logs s @ [''shutting down...'', ''context canceled'']"
  using assms by (simp add: step_def log_Fatalln_def log_Println_def context_Canceled_def)

text \<open>
  Claim C1, amended. The claim says that the interrupt leads to exit status 0 and an
  internal failure to a non-zero status. In the code the loop has one way out,
  \<open>log.Fatalln\<close>: whatever the run, the process is running or has exited with status 1;
  the shared context is done only after the loop has taken its signal branch; and from any
  running state an interrupt, taken by the loop, cancels the context and the next
  iteration ends the process with status 1, after logging the shutdown and the
  cancellation.
\<close>

theorem interrupt_and_failure_exit_alike:
  assumes "main w es = Some s"
  shows "(exit_status s = None \<or> exit_status s = Some 1)
    \<and> (ctx_done s \<longrightarrow> SelectSignal \<in> set es)
    \<and> (exit_status s = None \<longrightarrow>
         (\<exists>s'. main w (es @ [Interrupt, SelectSignal, SelectDone]) = Some s'
             \<and> exit_status s' = Some 1
             \<and> logs s' = logs s @ [''shutting down...'', ''context canceled'']))"
proof -
  from assms have r: "run es (main_startup w) = Some s" by (simp add: main_def)
  have a: "exit_status s = None \<or> exit_status s = Some 1"
    using run_exit [OF r startup_exit] .
  have b: "ctx_done s \<longrightarrow> SelectSignal \<in> set es"
    using run_ctx [OF r] startup_ctx by blast
  have c: "exit_status s = None \<longrightarrow>
         (\<exists>s'. main w (es @ [Interrupt, SelectSignal, SelectDone]) = Some s'
             \<and> exit_status s' = Some 1
             \<and> logs s' = logs s @ [''shutting down...'', ''context canceled''])"
    using interrupt_exits [of s] by (simp add: main_def run_append r del: run.simps)
  from a b c show ?thesis by blast
qed

lemma main0: "main world0 [] = Some (main_startup world0)"
  by (simp add: main_def)

lemma startup0_running: "exit_status (main_startup world0) = None"
  by (simp add: startup_defs world0_defs Let_def)

theorem interrupt_and_failure_exit_alike_witness:
  "main world0 [] = Some (main_startup world0)
   \<and> exit_status (main_startup world0) = None
   \<and> (\<exists>s'. main world0 [Interrupt, SelectSignal, SelectDone] = Some s' \<and> exit_status s' = Some 1)
   \<and> main world0 [Interrupt, SelectSignal]
       = Some ((main_startup world0)\<lparr>logs := [''shutting down...''], ctx_done := True\<rparr>)
   \<and> ctx_done ((main_startup world0)\<lparr>logs := [''shutting down...''], ctx_done := True\<rparr>)
   \<and> SelectSignal \<in> set [Interrupt, SelectSignal]"
proof -
  have h2: "main world0 [Interrupt, SelectSignal]
       = Some ((main_startup world0)\<lparr>logs := [''shutting down...''], ctx_done := True\<rparr>)"
    by (simp add: main_def step_def log_Println_def startup_defs world0_defs Let_def)
  from interrupt_and_failure_exit_alike [OF main0] interrupt_and_failure_exit_alike [OF h2]
    main0 startup0_running h2
  show ?thesis by auto
qed

text \<open>
  The claim as stated fails: after an interrupt the process exits with status 1, not 0.
\<close>

theorem interrupt_exit_status_counterexample:
  "map_option exit_status (main world0 [Interrupt, SelectSignal, SelectDone]) = Some (Some 1)
   \<and> map_option exit_status (main world0 [Interrupt, SelectSignal, SelectDone]) \<noteq> Some (Some 0)"
  by (simp add: main_def step_def log_Println_def log_Fatalln_def startup_defs world0_defs Let_def)


text \<open>
  What the subscriber's goroutine does with an error of \<open>Subscribe\<close>: it logs it and
  ends. The process keeps running, the shared context and the pending signals are as
  before, and the HTTP goroutine is untouched.
\<close>

lemma subscriber_error_only_logged:
  assumes "main w es = Some s" and "exit_status s = None" and "subscriber s = Some sc"
  shows "\<exists>s'. main w (es @ [SubscribeReturns (Some err)]) = Some s'
           \<and> logs s' = logs s @ [message err]
           \<and> subscriber s' = None
           \<and> exit_status s' = None
           \<and> ctx_done s' = ctx_done s
           \<and> signals s' = signals s
           \<and> engine s' = engine s"
  using assms by (simp add: main_def run_append step_def log_Println_def)

text \<open>
  Claim C2. The claim says that a transport error ending the receive loop reaches the
  supervisory loop and ends the process with a non-zero status. The code does not do
  that: the subscriber's goroutine passes the error of \<open>Subscribe\<close> to \<open>log.Println\<close>
  where the HTTP goroutine, and every other error site of \<open>main\<close>, uses
  \<open>log.Fatalln\<close>. After the subscriber has reported a closed channel, the error is in
  the log, the process has not exited, the context is not done, no subscriber is left and
  neither branch of the supervisory loop's \<open>select\<close> can be taken; the same error
  returned by \<open>engine.Run\<close> ends the process with status 1.
\<close>

theorem subscriber_error_leaves_process_running:
  "map_option logs (main world0 [SubscribeReturns (Some (Err ''channel closed''))])
     = Some [''channel closed'']
   \<and> map_option exit_status (main world0 [SubscribeReturns (Some (Err ''channel closed''))])
       = Some None
   \<and> map_option ctx_done (main world0 [SubscribeReturns (Some (Err ''channel closed''))])
       = Some False
   \<and> map_option subscriber (main world0 [SubscribeReturns (Some (Err ''channel closed''))])
       = Some None
   \<and> main world0 [SubscribeReturns (Some (Err ''channel closed'')), SelectDone] = None
   \<and> main world0 [SubscribeReturns (Some (Err ''channel closed'')), SelectSignal] = None
   \<and> map_option exit_status (main world0 [RunReturns (Some (Err ''channel closed''))])
       = Some (Some 1)"
  by (simp add: main_def step_def log_Println_def log_Fatalln_def startup_defs world0_defs Let_def)

text \<open>
  Claim C3. The claim says that the channel and the connection are closed on every exit
  after they were opened. The code defers both \<open>Close\<close> calls, but every exit goes
  through \<open>log.Fatalln\<close>, which does not run deferred calls. On the interrupt path, and
  on the path where the broker refuses the second exchange, the process exits with status
  1 while connection and channel are still open and both deferred calls are still
  pending; running the deferred calls would have closed both.
\<close>

theorem deferred_close_never_runs:
  "map_option exit_status (main world0 [Interrupt, SelectSignal, SelectDone]) = Some (Some 1)
   \<and> map_option connection (main world0 [Interrupt, SelectSignal, SelectDone]) = Some Opened
   \<and> map_option channel (main world0 [Interrupt, SelectSignal, SelectDone]) = Some Opened
   \<and> map_option deferred (main world0 [Interrupt, SelectSignal, SelectDone])
       = Some [CloseChannel, CloseConnection]
   \<and> map_option exit_status (main world1 []) = Some (Some 1)
   \<and> map_option connection (main world1 []) = Some Opened
   \<and> map_option channel (main world1 []) = Some Opened
   \<and> map_option deferred (main world1 []) = Some [CloseChannel, CloseConnection]
   \<and> map_option connection (map_option run_deferred (main world1 [])) = Some Closed
   \<and> map_option channel (map_option run_deferred (main world1 [])) = Some Closed"
  by (simp add: main_def step_def log_Println_def log_Fatalln_def startup_defs world0_defs Let_def
      run_deferred_def)

text \<open>
  Claim C4, amended. The claim says that the handler of \<open>GET /api/thumbs/:filename\<close>
  is constructed on the thumbs-bucket object store. In the code, whenever startup
  succeeds, the one registered route is \<open>GET /api/thumbs/:filename\<close> and its handler
  is constructed on the image database over the database connection; the thumbs-bucket
  store is the \<open>ThumbStorage\<close> of the worker's bundle.
\<close>

theorem handler_wired_to_database:
  assumes "exit_status (main_startup w) = None"
  shows "engine (main_startup w)
           = Some [\<lparr>r_method = ''GET'', r_path = ''/api/thumbs/:filename'',
                    r_handler = GetThumbsHandler (OnDatabase (NewDatabase (DbConnection (main_dsn w))))\<rparr>]
    \<and> route_backings (main_startup w) = [OnDatabase (NewDatabase (DbConnection (main_dsn w)))]
    \<and> worker_ThumbStorage (main_startup w) = [NewMinioStorage (main_client w) (getenv w thumbsBucketEnv)]"
  using assms
  by (auto simp: startup_defs route_backings_def worker_ThumbStorage_def Let_def
      split: sum.splits option.splits prod.splits)

theorem handler_wired_to_database_witness:
  "exit_status (main_startup world0) = None
   \<and> route_backings (main_startup world0)
       = [OnDatabase (NewDatabase (DbConnection ''host= user= password= dbname= port= sslmode=disable''))]
   \<and> worker_ThumbStorage (main_startup world0)
       = [NewMinioStorage (MinioClient [] [] [] False) ''thumbs'']"
proof -
  have d: "main_dsn world0 = ''host= user= password= dbname= port= sslmode=disable''"
    by (simp add: world0_defs)
  have c: "main_client world0 = MinioClient [] [] [] False" "getenv world0 thumbsBucketEnv = ''thumbs''"
    by (simp_all add: world0_defs)
  from handler_wired_to_database [OF startup0_running] startup0_running d c
  show ?thesis by simp
qed

text \<open>
  The claim as stated fails: what the handler is built from is the image database, not
  the thumbs-bucket store of the worker.
\<close>

theorem handler_not_wired_to_thumbs_store_counterexample:
  "route_backings (main_startup world0)
     = [OnDatabase (NewDatabase (DbConnection ''host= user= password= dbname= port= sslmode=disable''))]
   \<and> worker_ThumbStorage (main_startup world0)
       = [NewMinioStorage (MinioClient [] [] [] False) ''thumbs'']
   \<and> route_backings (main_startup world0) \<noteq> map OnStorage (worker_ThumbStorage (main_startup world0))"
  by (simp add: startup_defs world0_defs route_backings_def worker_ThumbStorage_def Let_def)





text \<open>
  Claim C6. When startup succeeds, the calls made on the channel are exactly these four,
  in this order: the declaration of the inbound bucket exchange and of the outbound worker
  exchange, each of kind fanout, durable, not auto-deleted; the declaration of one queue,
  durable, not auto-deleted, not exclusive; and the binding of the queue the broker
  returned to the inbound exchange with the empty routing key.
\<close>

theorem topology_declared:
  assumes "exit_status (main_startup w) = None"
  shows "\<exists>q. queue_declared w (QueueDeclare (getenv w queueNameEnv) True False False False None) = Inr q
    \<and> calls (main_startup w) =
        [ExchangeDeclare (getenv w bucketExchangeNameEnv) ''fanout'' True False False False None,
         ExchangeDeclare (getenv w workerExchangeNameEnv) ''fanout'' True False False False None,
         QueueDeclare (getenv w queueNameEnv) True False False False None,
         QueueBind (Name q) [] (getenv w bucketExchangeNameEnv) False None]"
  using assms
  by (auto simp: startup_defs fanoutExchangeKind_def Let_def
      split: sum.splits option.splits prod.splits)

theorem topology_declared_witness:
  "exit_status (main_startup world0) = None
   \<and> calls (main_startup world0) =
        [ExchangeDeclare ''bucket'' ''fanout'' True False False False None,
         ExchangeDeclare ''worker'' ''fanout'' True False False False None,
         QueueDeclare ''thumbs'' True False False False None,
         QueueBind ''thumbs'' [] ''bucket'' False None]"
proof -
  have g: "getenv world0 bucketExchangeNameEnv = ''bucket''" "getenv world0 workerExchangeNameEnv = ''worker''"
    "getenv world0 queueNameEnv = ''thumbs''"
    by (simp_all add: world0_defs)
  have q: "queue_declared world0 (QueueDeclare ''thumbs'' True False False False None)
             = Inr \<lparr>Name = ''thumbs'', Messages = 0, Consumers = 0\<rparr>"
    by (simp add: world0_defs)
  from topology_declared [OF startup0_running] startup0_running g q
  show ?thesis by auto
qed

text \<open>
  Claim C10. When \<open>engine.Run\<close> returns an error in a running process, the error is
  logged and the whole process exits with status 1: no event of any execution context is
  possible afterwards.
\<close>

theorem http_failure_exits_process:
  assumes "main w es = Some s" and "exit_status s = None" and "engine s = Some rs"
  shows "\<exists>s'. main w (es @ [RunReturns (Some err)]) = Some s'
           \<and> exit_status s' = Some 1
           \<and> logs s' = logs s @ [message err]
           \<and> (\<forall>e. step e s' = None)"
  using assms by (simp add: main_def run_append step_def log_Println_def log_Fatalln_def)

theorem http_failure_exits_process_witness:
  "main world0 [] = Some (main_startup world0)
   \<and> exit_status (main_startup world0) = None
   \<and> engine (main_startup world0) \<noteq> None
   \<and> (\<exists>s'. main world0 [RunReturns (Some (Err ''listen tcp :8082: bind: address already in use''))] = Some s'
           \<and> exit_status s' = Some 1
           \<and> logs s' = [''listen tcp :8082: bind: address already in use''])"
proof -
  obtain rs where h3: "engine (main_startup world0) = Some rs"
    by (simp add: startup_defs world0_defs Let_def)
  have l: "logs (main_startup world0) = []"
    by (simp add: startup_defs world0_defs Let_def)
  from http_failure_exits_process [OF main0 startup0_running h3,
      of "Err ''listen tcp :8082: bind: address already in use''"]
    main0 startup0_running h3 l
  show ?thesis by auto
qed

end
